theory Spec2Isabelle
  imports Main "HOL-Library.Word"
begin

section \<open>Framework values and diagnostics\<close>

text \<open>
  An attribute value of the configuration framework (\<^verbatim>\<open>types.String\<close>,
  \<^verbatim>\<open>types.Int32\<close>, \<^verbatim>\<open>types.Bool\<close>, \<^verbatim>\<open>types.Float32\<close>) is null, unknown or
  known. \<^verbatim>\<open>Equal\<close> compares the state and, for two known values, the value; the
  \<^verbatim>\<open>ValueX\<close> accessors give the zero value of the type unless the value is known.
\<close>

datatype 'a tfval = Null | Unknown | Known 'a


fun IsNull :: "'a tfval \<Rightarrow> bool" where
  "IsNull Null = True"
| "IsNull _ = False"


fun ValueString :: "string tfval \<Rightarrow> string" where
  "ValueString (Known s) = s"
| "ValueString _ = []"

fun ValueBool :: "bool tfval \<Rightarrow> bool" where
  "ValueBool (Known b) = b"
| "ValueBool _ = False"

type_synonym int32 = "32 word"

fun ValueInt32 :: "int32 tfval \<Rightarrow> int32" where
  "ValueInt32 (Known n) = n"
| "ValueInt32 _ = 0"

text \<open>\<^verbatim>\<open>types.StringPointerValue\<close> and \<^verbatim>\<open>types.Float32PointerValue\<close>: a nil pointer is null.\<close>

fun PointerValue :: "'a option \<Rightarrow> 'a tfval" where
  "PointerValue None = Null"
| "PointerValue (Some v) = Known v"

datatype severity = SeverityError | SeverityWarning

datatype diagnostic = Diagnostic (Severity: severity) (Summary: string) (Detail: string)

type_synonym diagnostics = "diagnostic list"

text \<open>
  \<^verbatim>\<open>Diagnostics.Append\<close> adds the given diagnostics one by one at the end and skips one
  that the collection already contains.
\<close>

fun Append :: "diagnostics \<Rightarrow> diagnostics \<Rightarrow> diagnostics" where
  "Append diags [] = diags"
| "Append diags (d # ds) = Append (if d \<in> set diags then diags else diags @ [d]) ds"

definition AddError :: "diagnostics \<Rightarrow> string \<Rightarrow> string \<Rightarrow> diagnostics" where
  "AddError diags summary detail = Append diags [Diagnostic SeverityError summary detail]"

definition AddWarning :: "diagnostics \<Rightarrow> string \<Rightarrow> string \<Rightarrow> diagnostics" where
  "AddWarning diags summary detail = Append diags [Diagnostic SeverityWarning summary detail]"

definition HasError :: "diagnostics \<Rightarrow> bool" where
  "HasError diags = list_ex (\<lambda>d. Severity d = SeverityError) diags"

definition HasWarning :: "diagnostics \<Rightarrow> bool" where
  "HasWarning diags = list_ex (\<lambda>d. Severity d = SeverityWarning) diags"

section \<open>Strings and times\<close>

text \<open>
  \<^verbatim>\<open>strings.Split(s, sep)\<close> for a one-character separator: the pieces between the
  separators, in order; never an empty list (a string without the separator is the only
  piece).
\<close>

fun Split :: "string \<Rightarrow> char \<Rightarrow> string list" where
  "Split [] sep = [[]]"
| "Split (c # cs) sep =
     (if c = sep then [] # Split cs sep
      else (case Split cs sep of
              [] \<Rightarrow> [[c]]
            | p # ps \<Rightarrow> (c # p) # ps))"

text \<open>
  A \<^verbatim>\<open>time.Time\<close>, by the fields that \<^verbatim>\<open>Format\<close> prints: the civil date and clock in
  the time's location, and the location's offset east of UTC in seconds.
\<close>

record Time =
  year :: int
  month :: nat
  day :: nat
  hour :: nat
  minute :: nat
  second :: nat
  zoneOffset :: int

definition digit :: "nat \<Rightarrow> char" where
  "digit n = ''0123456789'' ! (n mod 10)"

fun decimal :: "nat \<Rightarrow> string" where
  "decimal n = (if n < 10 then [digit n] else decimal (n div 10) @ [digit n])"

declare decimal.simps [simp del]

text \<open>
  \<^verbatim>\<open>appendInt(b, x, width)\<close> of package time: a minus sign for a negative number, then
  the decimal digits, padded with zeros on the left up to the width.
\<close>

definition appendInt :: "int \<Rightarrow> nat \<Rightarrow> string" where
  "appendInt x width =
     (let ds = decimal (nat \<bar>x\<bar>) in
      (if x < 0 then ''-'' else []) @ replicate (width - length ds) CHR ''0'' @ ds)"

text \<open>\<^verbatim>\<open>t.Format("20060102150405")\<close>.\<close>

definition Format_20060102150405 :: "Time \<Rightarrow> string" where
  "Format_20060102150405 t =
     appendInt (year t) 4 @ appendInt (int (month t)) 2 @ appendInt (int (day t)) 2 @
     appendInt (int (hour t)) 2 @ appendInt (int (minute t)) 2 @ appendInt (int (second t)) 2"

text \<open>
  \<^verbatim>\<open>t.Format("2006-01-02T15:04:05Z07:00")\<close>: the zone is \<^verbatim>\<open>Z\<close> at offset zero. Otherwise
  the offset is cut to whole minutes (\<^verbatim>\<open>offset / 60\<close>, which in Go rounds towards zero),
  the sign is that of the minutes, and the hours and minutes follow.
\<close>

definition Format_zone :: "int \<Rightarrow> string" where
  "Format_zone off =
     (if off = 0 then ''Z''
      else (let zone = (if off < 0 then - (\<bar>off\<bar> div 60) else off div 60) in
            (if zone < 0 then ''-'' else ''+'') @
            appendInt (\<bar>zone\<bar> div 60) 2 @ '':'' @ appendInt (\<bar>zone\<bar> mod 60) 2))"

definition Format_RFC3339 :: "Time \<Rightarrow> string" where
  "Format_RFC3339 t =
     appendInt (year t) 4 @ ''-'' @ appendInt (int (month t)) 2 @ ''-'' @
     appendInt (int (day t)) 2 @ ''T'' @ appendInt (int (hour t)) 2 @ '':'' @
     appendInt (int (minute t)) 2 @ '':'' @ appendInt (int (second t)) 2 @
     Format_zone (zoneOffset t)"

section \<open>The platform API, the container engine and the world\<close>

text \<open>
  The API client's data. A \<^verbatim>\<open>float32\<close> is carried as its 32 bits; the conversion
  \<^verbatim>\<open>int32(x)\<close> is a parameter of the environment. A \<^verbatim>\<open>NullableString\<close> or
  \<^verbatim>\<open>NullableFloat32\<close> holds a pointer (\<^verbatim>\<open>Get\<close>) and a flag (\<^verbatim>\<open>IsSet\<close>); a JSON
  \<^verbatim>\<open>null\<close> sets the flag and leaves the pointer nil.
\<close>

type_synonym float32 = "32 word"

datatype 'a Nullable = Nullable (Get: "'a option") (IsSet: bool)

record SnapshotDto =
  dto_Id :: string
  dto_OrganizationId :: "string option"
  dto_Name :: string
  dto_ImageName :: "string option"
  dto_State :: string
  dto_Size :: "float32 Nullable"
  dto_Cpu :: float32
  dto_Gpu :: float32
  dto_Mem :: float32
  dto_Disk :: float32
  dto_ErrorReason :: "string Nullable"
  dto_CreatedAt :: Time

definition SNAPSHOTSTATE_ACTIVE :: string where
  "SNAPSHOTSTATE_ACTIVE = ''active''"

definition SNAPSHOTSTATE_ERROR :: string where
  "SNAPSHOTSTATE_ERROR = ''error''"

definition SNAPSHOTSTATE_BUILD_FAILED :: string where
  "SNAPSHOTSTATE_BUILD_FAILED = ''build_failed''"

record CreateSnapshot =
  cs_Name :: string
  cs_ImageName :: "string option"
  cs_Cpu :: "int32 option"
  cs_Memory :: "int32 option"
  cs_Disk :: "int32 option"

record RegistryPushAccessDto =
  Username :: string
  Secret :: string
  RegistryUrl :: string
  Project :: string

record AuthConfig =
  auth_Username :: string
  auth_Password :: string
  auth_ServerAddress :: string

text \<open>
  The result of \<^verbatim>\<open>Execute()\<close>: the value, or an error with its message and, when
  there was an HTTP response, the status code of the response.
\<close>

datatype 'a response = Success 'a | Failure "nat option" string

text \<open>
  Every call that leaves the process, in the order made. The world is a logical clock and
  the calls made so far. A call and a sleep each advance the clock by one; what a call
  answers, and whether the context is done, is given by the environment at the clock of
  the moment.
\<close>

datatype call =
    CallGetSnapshot string
  | CallRemoveSnapshot string
  | CallCreateSnapshot CreateSnapshot
  | CallGetTransientPushAccess
  | CallNewClientWithOpts
  | CallImageInspectWithRaw string
  | CallImageTag string string
  | CallImagePush string string
  | CallCopyPushOutput
  | CallDistributionInspect string string
  | CallImageRemove string

record world =
  clock :: nat
  calls :: "call list"

record env =
  ctxDone :: "nat \<Rightarrow> bool"
  ctxErr :: string
  GetSnapshot :: "nat \<Rightarrow> string \<Rightarrow> SnapshotDto response"
  RemoveSnapshot :: "nat \<Rightarrow> string \<Rightarrow> unit response"
  CreateSnapshotExecute :: "nat \<Rightarrow> CreateSnapshot \<Rightarrow> unit response"
  GetTransientPushAccess :: "nat \<Rightarrow> RegistryPushAccessDto response"
  NewClientWithOpts :: "nat \<Rightarrow> string option"
  ImageInspectWithRaw :: "nat \<Rightarrow> string \<Rightarrow> string option"
  ImageTag :: "nat \<Rightarrow> string \<Rightarrow> string \<Rightarrow> string option"
  ImagePush :: "nat \<Rightarrow> string \<Rightarrow> string \<Rightarrow> string option"
  CopyPushOutput :: "nat \<Rightarrow> string option"
  DistributionInspect :: "nat \<Rightarrow> string \<Rightarrow> string \<Rightarrow> string option"
  ImageRemove :: "nat \<Rightarrow> string \<Rightarrow> string option"
  timeNow :: "nat \<Rightarrow> Time"
  jsonMarshal :: "AuthConfig \<Rightarrow> string + string"
  base64URLEncode :: "string \<Rightarrow> string"
  quoted :: "string \<Rightarrow> string"
  int32 :: "float32 \<Rightarrow> int32"

definition did :: "call \<Rightarrow> world \<Rightarrow> world" where
  "did c w = w\<lparr>clock := Suc (clock w), calls := calls w @ [c]\<rparr>"

definition Sleep :: "world \<Rightarrow> world" where
  "Sleep w = w\<lparr>clock := Suc (clock w)\<rparr>"

text \<open>A function that returns, or panics (a nil pointer dereference).\<close>

datatype 'a outcome = Returned 'a | Panicked string

section \<open>The snapshot resource\<close>

record SnapshotResourceModel =
  m_Id :: "string tfval"
  m_Name :: "string tfval"
  m_ImageName :: "string tfval"
  m_RemoteImageName :: "string tfval"
  m_OrganizationId :: "string tfval"
  m_Size :: "float32 tfval"
  m_Cpu :: "int32 tfval"
  m_Gpu :: "int32 tfval"
  m_Memory :: "int32 tfval"
  m_Disk :: "int32 tfval"
  m_CreatedAt :: "string tfval"
  m_KeepRemotely :: "bool tfval"

subsection \<open>maybeCleanupExistingCreationAttempt\<close>

partial_function (option) maybeCleanupExistingCreationAttempt_loop ::
  "env \<Rightarrow> string \<Rightarrow> diagnostics \<Rightarrow> diagnostics \<Rightarrow> world \<Rightarrow>
   ((diagnostics \<times> diagnostics) \<times> world) option" where
  "maybeCleanupExistingCreationAttempt_loop e existingId warns errors w =
     (if ctxDone e (clock w) then Some ((warns, errors), w)
      else (case GetSnapshot e (clock w) existingId of
              Failure status err \<Rightarrow>
                if status = Some 404 then Some ((warns, errors), did (CallGetSnapshot existingId) w)
                else maybeCleanupExistingCreationAttempt_loop e existingId warns errors
                       (Sleep (did (CallGetSnapshot existingId) w))
            | Success s \<Rightarrow>
                maybeCleanupExistingCreationAttempt_loop e existingId warns errors
                  (Sleep (did (CallGetSnapshot existingId) w))))"

definition maybeCleanupExistingCreationAttempt ::
  "env \<Rightarrow> string \<Rightarrow> world \<Rightarrow> ((diagnostics \<times> diagnostics) \<times> world) option" where
  "maybeCleanupExistingCreationAttempt e snapshotName w =
     (let w1 = did (CallGetSnapshot snapshotName) w in
      case GetSnapshot e (clock w) snapshotName of
        Failure status err \<Rightarrow>
          if status = Some 404 then Some (([], []), w1)
          else Some (([], AddError [] ''Snapshot Check''
                            (''Unable to check for if snapshot exists: '' @ err)), w1)
      | Success existingSnapshot \<Rightarrow>
          (let w2 = did (CallRemoveSnapshot (dto_Id existingSnapshot)) w1;
               warns = (case RemoveSnapshot e (clock w1) (dto_Id existingSnapshot) of
                          Failure status err \<Rightarrow>
                            AddWarning [] ''Cleanup Warning''
                              (''Failed to delete existing failed snapshot '' @
                               quoted e snapshotName @ '': '' @ err)
                        | Success u \<Rightarrow> [])
           in maybeCleanupExistingCreationAttempt_loop e (dto_Id existingSnapshot) warns [] w2))"

subsection \<open>pushImageToRegistry\<close>

definition targetImageName :: "RegistryPushAccessDto \<Rightarrow> string \<Rightarrow> Time \<Rightarrow> string" where
  "targetImageName tokenResponse localImageName now =
     (let localImageParts = Split localImageName CHR '':'';
          localImageRepo = hd localImageParts;
          repoParts = Split localImageRepo CHR ''/'';
          imageName = last repoParts;
          timestamp = Format_20060102150405 now
      in RegistryUrl tokenResponse @ ''/'' @ Project tokenResponse @ ''/'' @ imageName @
         '':'' @ timestamp)"

partial_function (option) pushImageToRegistry_loop ::
  "env \<Rightarrow> string \<Rightarrow> string \<Rightarrow> world \<Rightarrow>
   ((string \<times> diagnostics \<times> diagnostics) \<times> world) option" where
  "pushImageToRegistry_loop e targetImage registryAuth w =
     (if ctxDone e (clock w) then
        Some ((targetImage, [],
               AddError [] ''Image Availability Error''
                 (''Cancelled during waiting for image to become available: '' @ ctxErr e)), w)
      else (case DistributionInspect e (clock w) targetImage registryAuth of
              None \<Rightarrow> Some ((targetImage, [], []),
                            did (CallDistributionInspect targetImage registryAuth) w)
            | Some err \<Rightarrow>
                pushImageToRegistry_loop e targetImage registryAuth
                  (Sleep (did (CallDistributionInspect targetImage registryAuth) w))))"

definition pushImageToRegistry ::
  "env \<Rightarrow> string \<Rightarrow> world \<Rightarrow> ((string \<times> diagnostics \<times> diagnostics) \<times> world) option" where
  "pushImageToRegistry e localImageName w =
     (let w1 = did CallGetTransientPushAccess w in
      case GetTransientPushAccess e (clock w) of
        Failure status err \<Rightarrow>
          Some (([], [], AddError [] ''API Error''
                           (''Unable to get push access token: '' @ err)), w1)
      | Success tokenResponse \<Rightarrow>
          (case jsonMarshal e \<lparr>auth_Username = Username tokenResponse,
                               auth_Password = Secret tokenResponse,
                               auth_ServerAddress = RegistryUrl tokenResponse\<rparr> of
             Inl err \<Rightarrow>
               Some (([], [], AddError [] ''Auth Error''
                                (''Unable to encode docker auth config: '' @ err)), w1)
           | Inr encodedAuth \<Rightarrow>
               (let w2 = did (CallImageInspectWithRaw localImageName) w1 in
                case ImageInspectWithRaw e (clock w1) localImageName of
                  Some err \<Rightarrow>
                    Some (([], [], AddError [] ''Image Not Found''
                                     (''Local image '' @ quoted e localImageName @
                                      '' not found: '' @ err)), w2)
                | None \<Rightarrow>
                    (let targetImage =
                           targetImageName tokenResponse localImageName (timeNow e (clock w2));
                         w3 = did (CallImageTag localImageName targetImage) w2
                     in case ImageTag e (clock w2) localImageName targetImage of
                          Some err \<Rightarrow>
                            Some ((targetImage, [], AddError [] ''Tag Error''
                                                      (''Unable to tag image: '' @ err)), w3)
                        | None \<Rightarrow>
                            (let registryAuth = base64URLEncode e encodedAuth;
                                 w4 = did (CallImagePush targetImage registryAuth) w3
                             in case ImagePush e (clock w3) targetImage registryAuth of
                                  Some err \<Rightarrow>
                                    Some ((targetImage, [],
                                           AddError [] ''Push Error''
                                             (''Unable to push image: '' @ err)), w4)
                                | None \<Rightarrow>
                                    (let w5 = did CallCopyPushOutput w4 in
                                     case CopyPushOutput e (clock w4) of
                                       Some err \<Rightarrow>
                                         Some ((targetImage, [],
                                                AddError [] ''Push Error''
                                                  (''Error during image push: '' @ err)), w5)
                                     | None \<Rightarrow>
                                         pushImageToRegistry_loop e targetImage registryAuth
                                           w5))))))"

subsection \<open>registerSnapshot\<close>

definition registerSnapshot ::
  "env \<Rightarrow> SnapshotResourceModel \<Rightarrow> string \<Rightarrow> world \<Rightarrow> (diagnostics \<times> diagnostics) \<times> world" where
  "registerSnapshot e data targetImage w =
     (let createRequest =
            \<lparr>cs_Name = ValueString (m_Name data),
             cs_ImageName = Some targetImage,
             cs_Cpu = (if \<not> IsNull (m_Cpu data) then Some (ValueInt32 (m_Cpu data)) else None),
             cs_Memory =
               (if \<not> IsNull (m_Memory data) then Some (ValueInt32 (m_Memory data)) else None),
             cs_Disk =
               (if \<not> IsNull (m_Disk data) then Some (ValueInt32 (m_Disk data)) else None)\<rparr>;
          w1 = did (CallCreateSnapshot createRequest) w
      in case CreateSnapshotExecute e (clock w) createRequest of
           Failure status err \<Rightarrow>
             (([], AddError [] ''Client Error''
                     (''Unable to create snapshot, got error: '' @ err)), w1)
         | Success u \<Rightarrow> (([], []), w1))"

subsection \<open>ensureSnapshotAvailable\<close>

partial_function (option) ensureSnapshotAvailable ::
  "env \<Rightarrow> string \<Rightarrow> world \<Rightarrow>
   ((SnapshotDto option \<times> diagnostics \<times> diagnostics) outcome \<times> world) option" where
  "ensureSnapshotAvailable e snapshotName w =
     (if ctxDone e (clock w) then
        Some (Returned (None, [],
                AddError [] ''Snapshot Availability Error''
                  (''Cancelled during waiting for snapshot to become available: '' @ ctxErr e)),
              w)
      else (case GetSnapshot e (clock w) snapshotName of
              Failure status err \<Rightarrow>
                Some (Returned (None, [],
                        AddError [] ''Snapshot Availability Error''
                          (''Unable to fetch snapshot: '' @ err)),
                      did (CallGetSnapshot snapshotName) w)
            | Success snapshot \<Rightarrow>
                if dto_State snapshot = SNAPSHOTSTATE_ACTIVE then
                  Some (Returned (Some snapshot, [], []), did (CallGetSnapshot snapshotName) w)
                else if dto_State snapshot = SNAPSHOTSTATE_ERROR \<or>
                        dto_State snapshot = SNAPSHOTSTATE_BUILD_FAILED then
                  (if \<not> IsSet (dto_ErrorReason snapshot) then
                     Some (Returned (Some snapshot, [],
                             AddError [] ''Snapshot Availability Error''
                               ''Snapshot processing failed with unknown reason''),
                           did (CallGetSnapshot snapshotName) w)
                   else (case Get (dto_ErrorReason snapshot) of
                           None \<Rightarrow>
                             Some (Panicked ''invalid memory address or nil pointer dereference'',
                                   did (CallGetSnapshot snapshotName) w)
                         | Some reason \<Rightarrow>
                             Some (Returned (Some snapshot, [],
                                     AddError [] ''Snapshot Availability Error''
                                       (''Snapshot processing failed: '' @ reason)),
                                   did (CallGetSnapshot snapshotName) w)))
                else ensureSnapshotAvailable e snapshotName
                       (Sleep (did (CallGetSnapshot snapshotName) w))))"

subsection \<open>readSnapshot\<close>

definition readSnapshot ::
  "env \<Rightarrow> SnapshotResourceModel \<Rightarrow> world \<Rightarrow>
   ((diagnostics \<times> diagnostics \<times> diagnostics) \<times> SnapshotResourceModel) \<times> world" where
  "readSnapshot e data w =
     (let w1 = did (CallGetSnapshot (ValueString (m_Id data))) w in
      case GetSnapshot e (clock w) (ValueString (m_Id data)) of
        Failure status err \<Rightarrow>
          if status = Some 404 then ((([], [], []), data), w1)
          else ((([], [], AddError [] ''Client Error'' (''Unable to read snapshot: '' @ err)),
                 data), w1)
      | Success snapshot \<Rightarrow>
          (let data1 = data\<lparr>m_Name := Known (dto_Name snapshot),
                             m_Cpu := Known (int32 e (dto_Cpu snapshot)),
                             m_Gpu := Known (int32 e (dto_Gpu snapshot)),
                             m_Memory := Known (int32 e (dto_Mem snapshot)),
                             m_Disk := Known (int32 e (dto_Disk snapshot)),
                             m_CreatedAt := Known (Format_RFC3339 (dto_CreatedAt snapshot))\<rparr>;
               data2 = (case dto_OrganizationId snapshot of
                          Some v \<Rightarrow> data1\<lparr>m_OrganizationId := Known v\<rparr>
                        | None \<Rightarrow> data1);
               data3 = (case dto_ImageName snapshot of
                          Some v \<Rightarrow> data2\<lparr>m_RemoteImageName := Known v\<rparr>
                        | None \<Rightarrow> data2);
               data4 = (if IsSet (dto_Size snapshot)
                        then data3\<lparr>m_Size := PointerValue (Get (dto_Size snapshot))\<rparr>
                        else data3)
           in ((([], [], []), data4), w1)))"

subsection \<open>deleteSnapshot\<close>

partial_function (option) deleteSnapshot_loop ::
  "env \<Rightarrow> string \<Rightarrow> world \<Rightarrow> ((diagnostics \<times> diagnostics \<times> diagnostics) \<times> world) option" where
  "deleteSnapshot_loop e snapshotId w =
     (if ctxDone e (clock w) then
        Some (([], [], AddError [] ''Deletion Error''
                         (''Cancelled while waiting for snapshot deletion: '' @ ctxErr e)), w)
      else (case GetSnapshot e (clock w) snapshotId of
              Failure status err \<Rightarrow>
                if status = Some 404 then Some (([], [], []), did (CallGetSnapshot snapshotId) w)
                else Some (([], [], AddError [] ''Deletion Verification Error''
                                      (''Unable to verify snapshot deletion: '' @ err)),
                           did (CallGetSnapshot snapshotId) w)
            | Success s \<Rightarrow>
                deleteSnapshot_loop e snapshotId (Sleep (did (CallGetSnapshot snapshotId) w))))"

definition deleteSnapshot ::
  "env \<Rightarrow> SnapshotResourceModel \<Rightarrow> world \<Rightarrow>
   ((diagnostics \<times> diagnostics \<times> diagnostics) \<times> world) option" where
  "deleteSnapshot e data w =
     (let w1 = did (CallRemoveSnapshot (ValueString (m_Id data))) w in
      case RemoveSnapshot e (clock w) (ValueString (m_Id data)) of
        Failure status err \<Rightarrow>
          if status = Some 404 then Some (([], [], []), w1)
          else Some (([], [], AddError [] ''Client Error''
                                (''Unable to delete snapshot, got error: '' @ err)), w1)
      | Success u \<Rightarrow> deleteSnapshot_loop e (ValueString (m_Id data)) w1)"

subsection \<open>createSnapshot\<close>

text \<open>
  The deferred function of \<^verbatim>\<open>createSnapshot\<close>. It removes the tag and, when that fails,
  adds its warning to the local variable \<^verbatim>\<open>warnings\<close>, which it returns updated here.
\<close>

definition createSnapshot_deferred ::
  "env \<Rightarrow> string \<Rightarrow> diagnostics \<Rightarrow> world \<Rightarrow> diagnostics \<times> world" where
  "createSnapshot_deferred e targetImage warnings w =
     (case ImageRemove e (clock w) targetImage of
        Some err \<Rightarrow>
          (AddWarning warnings ''Cleanup Warning''
             (''Failed to remove tagged image '' @ targetImage @ '': '' @ err),
           did (CallImageRemove targetImage) w)
      | None \<Rightarrow> (warnings, did (CallImageRemove targetImage) w))"

definition createSnapshot_populate ::
  "env \<Rightarrow> SnapshotResourceModel \<Rightarrow> SnapshotDto \<Rightarrow> SnapshotResourceModel" where
  "createSnapshot_populate e data snapshot =
     (let data1 = data\<lparr>m_Id := Known (dto_Id snapshot),
                        m_Name := Known (dto_Name snapshot),
                        m_Cpu := Known (int32 e (dto_Cpu snapshot)),
                        m_Gpu := Known (int32 e (dto_Gpu snapshot)),
                        m_Memory := Known (int32 e (dto_Mem snapshot)),
                        m_Disk := Known (int32 e (dto_Disk snapshot)),
                        m_CreatedAt := Known (Format_RFC3339 (dto_CreatedAt snapshot))\<rparr>;
          data2 = (if dto_OrganizationId snapshot \<noteq> None
                   then data1\<lparr>m_OrganizationId := PointerValue (dto_OrganizationId snapshot)\<rparr>
                   else data1);
          data3 = (if dto_ImageName snapshot \<noteq> None
                   then data2\<lparr>m_RemoteImageName := PointerValue (dto_ImageName snapshot)\<rparr>
                   else data2)
      in (if IsSet (dto_Size snapshot)
          then data3\<lparr>m_Size := PointerValue (Get (dto_Size snapshot))\<rparr>
          else data3))"

text \<open>
  The part of \<^verbatim>\<open>createSnapshot\<close> that runs once the deferred function is registered.
  Beside the named results \<^verbatim>\<open>(infos, warns, errs)\<close> and the record, or the panic, it
  gives the local variable \<^verbatim>\<open>warnings\<close> as it stands when the function leaves.
\<close>

definition createSnapshot_body ::
  "env \<Rightarrow> SnapshotResourceModel \<Rightarrow> string \<Rightarrow> diagnostics \<Rightarrow> diagnostics \<Rightarrow> world \<Rightarrow>
   ((((diagnostics \<times> diagnostics \<times> diagnostics) \<times> SnapshotResourceModel) outcome \<times>
     diagnostics) \<times> world) option" where
  "createSnapshot_body e data targetImage warns errs w =
     (case registerSnapshot e data targetImage w of
        ((warnings, errors), w1) \<Rightarrow>
          (let warns1 = Append warns warnings; errs1 = Append errs errors in
           if HasError errs1 then Some ((Returned (([], warns1, errs1), data), warnings), w1)
           else (case ensureSnapshotAvailable e (ValueString (m_Name data)) w1 of
                   None \<Rightarrow> None
                 | Some (Panicked msg, w2) \<Rightarrow> Some ((Panicked msg, warnings), w2)
                 | Some (Returned (snapshot, warnings2, errors2), w2) \<Rightarrow>
                     (let warns2 = Append warns1 warnings2; errs2 = Append errs1 errors2 in
                      if HasError errs2
                      then Some ((Returned (([], warns2, errs2), data), warnings2), w2)
                      else (case snapshot of
                              None \<Rightarrow>
                                Some ((Panicked
                                         ''invalid memory address or nil pointer dereference'',
                                       warnings2), w2)
                            | Some s \<Rightarrow>
                                Some ((Returned (([], warns2, errs2),
                                                 createSnapshot_populate e data s),
                                       warnings2), w2))))))"

definition createSnapshot ::
  "env \<Rightarrow> SnapshotResourceModel \<Rightarrow> world \<Rightarrow>
   (((diagnostics \<times> diagnostics \<times> diagnostics) \<times> SnapshotResourceModel) outcome \<times> world) option"
  where
  "createSnapshot e data w =
     (case maybeCleanupExistingCreationAttempt e (ValueString (m_Name data)) w of
        None \<Rightarrow> None
      | Some ((warnings, errors), w1) \<Rightarrow>
          (let warns = Append [] warnings; errs = Append [] errors in
           if HasError errs then Some (Returned (([], warns, errs), data), w1)
           else (let w2 = did CallNewClientWithOpts w1 in
                 case NewClientWithOpts e (clock w1) of
                   Some err \<Rightarrow>
                     Some (Returned (([], warns,
                                      AddError errs ''Docker Client Error''
                                        (''Unable to create Docker client: '' @ err)), data), w2)
                 | None \<Rightarrow>
                     (case pushImageToRegistry e (ValueString (m_ImageName data)) w2 of
                        None \<Rightarrow> None
                      | Some ((targetImage, warnings1, errors1), w3) \<Rightarrow>
                          (let warns1 = Append warns warnings1; errs1 = Append errs errors1 in
                           if HasError errs1 then Some (Returned (([], warns1, errs1), data), w3)
                           else (case createSnapshot_body e data targetImage warns1 errs1 w3 of
                                   None \<Rightarrow> None
                                 | Some ((result, warnings2), w4) \<Rightarrow>
                                     (case createSnapshot_deferred e targetImage warnings2 w4 of
                                        (warnings3, w5) \<Rightarrow> Some (result, w5))))))))"

subsection \<open>The entry points\<close>

text \<open>
  An entry point receives what the framework decoded from the request (the decoding's
  diagnostics and the record) and gives the diagnostics of the response and the record
  passed to \<^verbatim>\<open>State.Set\<close>, if it was called.
\<close>

type_synonym response_state = "diagnostics \<times> SnapshotResourceModel option"

definition Create ::
  "env \<Rightarrow> diagnostics \<times> SnapshotResourceModel \<Rightarrow> world \<Rightarrow>
   (response_state outcome \<times> world) option" where
  "Create e plan w =
     (case plan of
        (planDiags, data) \<Rightarrow>
          (let diags = Append [] planDiags in
           if HasError diags then Some (Returned (diags, None), w)
           else (case createSnapshot e data w of
                   None \<Rightarrow> None
                 | Some (Panicked msg, w1) \<Rightarrow> Some (Panicked msg, w1)
                 | Some (Returned ((infos, warns, errors), data1), w1) \<Rightarrow>
                     (let diags1 = Append (Append (Append diags infos) warns) errors in
                      if HasError diags1 then Some (Returned (diags1, None), w1)
                      else Some (Returned (diags1, Some data1), w1)))))"

definition Read ::
  "env \<Rightarrow> diagnostics \<times> SnapshotResourceModel \<Rightarrow> world \<Rightarrow> response_state \<times> world" where
  "Read e state w =
     (case state of
        (stateDiags, data) \<Rightarrow>
          (let diags = Append [] stateDiags in
           if HasError diags then ((diags, None), w)
           else (case readSnapshot e data w of
                   (((infoDiags, warnDiags, errDiags), data1), w1) \<Rightarrow>
                     (let diags1 = Append (Append (Append diags infoDiags) warnDiags) errDiags in
                      if HasError diags1 then ((diags1, None), w1)
                      else ((diags1, Some data1), w1)))))"






definition Delete ::
  "env \<Rightarrow> diagnostics \<times> SnapshotResourceModel \<Rightarrow> world \<Rightarrow> (diagnostics \<times> world) option" where
  "Delete e state w =
     (case state of
        (stateDiags, data) \<Rightarrow>
          (let diags = Append [] stateDiags in
           if HasError diags then Some (diags, w)
           else if ValueBool (m_KeepRemotely data) then Some (diags, w)
           else (case deleteSnapshot e data w of
                   None \<Rightarrow> None
                 | Some ((infos, warns, errors), w1) \<Rightarrow>
                     Some (Append (Append (Append diags infos) warns) errors, w1))))"

definition ImportState :: "env \<Rightarrow> string \<Rightarrow> world \<Rightarrow> response_state \<times> world" where
  "ImportState e snapshotID w =
     (let w1 = did (CallGetSnapshot snapshotID) w in
      case GetSnapshot e (clock w) snapshotID of
        Failure status err \<Rightarrow>
          if status = Some 404
          then ((AddError [] ''Snapshot Not Found''
                   (''Snapshot with ID/name '' @ quoted e snapshotID @ '' not found''), None), w1)
          else ((AddError [] ''Import Error''
                   (''Unable to fetch snapshot '' @ quoted e snapshotID @ '': '' @ err), None),
                w1)
      | Success snapshot \<Rightarrow>
          (([], Some \<lparr>m_Id = Known (dto_Id snapshot),
                      m_Name = Known (dto_Name snapshot),
                      m_ImageName = Known [],
                      m_RemoteImageName = PointerValue (dto_ImageName snapshot),
                      m_OrganizationId = PointerValue (dto_OrganizationId snapshot),
                      m_Size = PointerValue (Get (dto_Size snapshot)),
                      m_Cpu = Known (int32 e (dto_Cpu snapshot)),
                      m_Gpu = Known (int32 e (dto_Gpu snapshot)),
                      m_Memory = Known (int32 e (dto_Mem snapshot)),
                      m_Disk = Known (int32 e (dto_Disk snapshot)),
                      m_CreatedAt = Known (Format_RFC3339 (dto_CreatedAt snapshot)),
                      m_KeepRemotely = Known False\<rparr>), w1))"

section \<open>The specification's words\<close>





section \<open>Example environments\<close>

definition time0 :: Time where
  "time0 = \<lparr>year = 2025, month = 1, day = 2, hour = 3, minute = 4, second = 5, zoneOffset = 0\<rparr>"

text \<open>The snapshot of the scenario: cpu 2.0, memory 4.0 and disk 10.0 as \<^verbatim>\<open>float32\<close> bits.\<close>

definition snapshot0 :: SnapshotDto where
  "snapshot0 =
     \<lparr>dto_Id = ''snap-123'', dto_OrganizationId = Some ''org-1'', dto_Name = ''test-snap'',
      dto_ImageName = Some ''registry.example/proj/myapp:20250102030405'',
      dto_State = ''active'', dto_Size = Nullable None True,
      dto_Cpu = 0x40000000, dto_Gpu = 0, dto_Mem = 0x40800000, dto_Disk = 0x41200000,
      dto_ErrorReason = Nullable None False, dto_CreatedAt = time0\<rparr>"

definition access0 :: RegistryPushAccessDto where
  "access0 = \<lparr>Username = ''robot'', Secret = ''secret'', RegistryUrl = ''registry.example'',
              Project = ''proj''\<rparr>"

definition data0 :: SnapshotResourceModel where
  "data0 =
     \<lparr>m_Id = Unknown, m_Name = Known ''test-snap'', m_ImageName = Known ''myapp:latest'',
      m_RemoteImageName = Unknown, m_OrganizationId = Unknown, m_Size = Unknown,
      m_Cpu = Known 2, m_Gpu = Unknown, m_Memory = Known 4, m_Disk = Known 10,
      m_CreatedAt = Unknown, m_KeepRemotely = Known False\<rparr>"

definition world0 :: world where
  "world0 = \<lparr>clock = 0, calls = []\<rparr>"

text \<open>
  Every call succeeds; the name is free at the first look (clock 0) and the snapshot is
  active from then on.
\<close>

definition env_ok :: env where
  "env_ok =
     \<lparr>ctxDone = (\<lambda>t. False), ctxErr = ''context canceled'',
      GetSnapshot = (\<lambda>t n. if t = 0 then Failure (Some 404) ''404 Not Found''
                            else Success snapshot0),
      RemoveSnapshot = (\<lambda>t n. Success ()),
      CreateSnapshotExecute = (\<lambda>t r. Success ()),
      GetTransientPushAccess = (\<lambda>t. Success access0),
      NewClientWithOpts = (\<lambda>t. None),
      ImageInspectWithRaw = (\<lambda>t n. None),
      ImageTag = (\<lambda>t n m. None),
      ImagePush = (\<lambda>t n a. None),
      CopyPushOutput = (\<lambda>t. None),
      DistributionInspect = (\<lambda>t n a. None),
      ImageRemove = (\<lambda>t n. None),
      timeNow = (\<lambda>t. time0),
      jsonMarshal = (\<lambda>a. Inr (auth_Username a @ '':'' @ auth_Password a @ ''@'' @
                               auth_ServerAddress a)),
      base64URLEncode = (\<lambda>s. s),
      quoted = (\<lambda>s. ''\"'' @ s @ ''\"''),
      int32 = (\<lambda>f. if f = 0x3F800000 then 1 else if f = 0x40000000 then 2
                    else if f = 0x40800000 then 4 else if f = 0x41200000 then 10 else 0)\<rparr>"

text \<open>As \<open>env_ok\<close>, but removing the local tag fails.\<close>

definition env_untag_fails :: env where
  "env_untag_fails = env_ok\<lparr>ImageRemove := (\<lambda>t n. Some ''No such image'')\<rparr>"

text \<open>
  The snapshot exists and is still building, the manifest is not readable yet, and the
  context is cancelled from clock 4 on.
\<close>

definition env_cancelled :: env where
  "env_cancelled =
     env_ok\<lparr>ctxDone := (\<lambda>t. 3 < t),
            GetSnapshot := (\<lambda>t n. Success (snapshot0\<lparr>dto_State := ''building''\<rparr>)),
            DistributionInspect := (\<lambda>t n a. Some ''manifest unknown'')\<rparr>"

text \<open>
  The context has a deadline at clock 100. The old snapshot is gone at the first look
  after its removal and the name is free (clocks below 3); the new snapshot is active
  from then on.
\<close>

definition env_replace :: env where
  "env_replace =
     env_ok\<lparr>ctxDone := (\<lambda>t. 100 \<le> t),
            GetSnapshot := (\<lambda>t n. if t < 3 then Failure (Some 404) ''404 Not Found''
                                   else Success snapshot0)\<rparr>"

text \<open>The record of the snapshot as it stood before an update that renames it.\<close>

definition stateData0 :: SnapshotResourceModel where
  "stateData0 = data0\<lparr>m_Id := Known ''snap-old'', m_Name := Known ''old-snap''\<rparr>"

text \<open>The snapshot failed and the platform's answer carries \<^verbatim>\<open>"errorReason": null\<close>.\<close>

definition env_failed_null :: env where
  "env_failed_null =
     env_ok\<lparr>GetSnapshot :=
              (\<lambda>t n. Success (snapshot0\<lparr>dto_State := ''error'',
                                          dto_ErrorReason := Nullable None True\<rparr>))\<rparr>"

section \<open>Facts about diagnostics and framework values\<close>


lemma set_Append: "set (Append diags ds) = set diags \<union> set ds"
  by (induction ds arbitrary: diags) auto

lemma HasError_iff: "HasError diags \<longleftrightarrow> (\<exists>d \<in> set diags. Severity d = SeverityError)"
  by (simp add: HasError_def list_ex_iff)

lemma HasError_Append: "HasError (Append diags ds) \<longleftrightarrow> HasError diags \<or> HasError ds"
  by (auto simp: HasError_iff set_Append)

lemma HasError_Nil: "\<not> HasError []"
  by (simp add: HasError_def)

lemma AddError_Nil: "AddError [] summary detail = [Diagnostic SeverityError summary detail]"
  by (simp add: AddError_def)

lemma HasError_AddError: "HasError (AddError diags summary detail)"
proof -
  have "Diagnostic SeverityError summary detail \<in> set (AddError diags summary detail)"
    unfolding AddError_def set_Append by simp
  moreover have "Severity (Diagnostic SeverityError summary detail) = SeverityError" by simp
  ultimately show ?thesis unfolding HasError_iff by blast
qed

section \<open>Update: when the snapshot is replaced\<close>



section \<open>Delete: a snapshot kept remotely\<close>

text \<open>
  Claim C8. A Delete whose record has \<open>keep_remotely\<close> true succeeds as a no-op: it adds no
  diagnostic and leaves the world as it was, so it makes no remote call (no remote delete)
  and does not poll.
\<close>

theorem Delete_keepRemotely_noop:
  assumes "ValueBool (m_KeepRemotely data)" and "\<not> HasError stateDiags"
  shows "Delete e (stateDiags, data) w = Some (Append [] stateDiags, w) \<and>
         \<not> HasError (Append [] stateDiags)"
  using assms by (simp add: Delete_def Let_def HasError_Append HasError_Nil)

theorem Delete_keepRemotely_noop_witness:
  "ValueBool (m_KeepRemotely (data0\<lparr>m_KeepRemotely := Known True\<rparr>)) \<and> \<not> HasError [] \<and>
   Delete env_ok ([], data0\<lparr>m_KeepRemotely := Known True\<rparr>) world0 = Some ([], world0)"
  using Delete_keepRemotely_noop [of "data0\<lparr>m_KeepRemotely := Known True\<rparr>" "[]" env_ok world0]
  by (simp add: HasError_def)

section \<open>Read: a snapshot that is gone\<close>

lemma Format_RFC3339_time0: "Format_RFC3339 time0 = ''2025-01-02T03:04:05Z''"
  by code_simp

text \<open>
  Claim C6. In every Read whose decoding raised no error, a not-found answer (status 404) of
  the fetch by id is a success: no error diagnostic is produced and the record is handed
  back unchanged. Any other fetch error produces an error diagnostic, and no record is set.
\<close>

theorem Read_not_found_is_success:
  assumes "\<not> HasError stateDiags"
  shows "(GetSnapshot e (clock w) (ValueString (m_Id data)) = Failure (Some 404) err \<longrightarrow>
            readSnapshot e data w =
              ((([], [], []), data), did (CallGetSnapshot (ValueString (m_Id data))) w) \<and>
            Read e (stateDiags, data) w =
              ((Append [] stateDiags, Some data),
               did (CallGetSnapshot (ValueString (m_Id data))) w) \<and>
            \<not> HasError (Append [] stateDiags)) \<and>
         (GetSnapshot e (clock w) (ValueString (m_Id data)) = Failure status err \<and>
          status \<noteq> Some 404 \<longrightarrow>
            HasError (snd (snd (fst (fst (readSnapshot e data w))))) \<and>
            HasError (fst (fst (Read e (stateDiags, data) w))) \<and>
            snd (fst (Read e (stateDiags, data) w)) = None)"
  using assms
  by (simp add: Read_def readSnapshot_def Let_def HasError_Append HasError_Nil HasError_AddError)

theorem Read_not_found_is_success_witness:
  "\<not> HasError [] \<and>
   GetSnapshot env_ok (clock world0) (ValueString (m_Id (data0\<lparr>m_Id := Known ''snap-123''\<rparr>))) =
     Failure (Some 404) ''404 Not Found'' \<and>
   Read env_ok ([], data0\<lparr>m_Id := Known ''snap-123''\<rparr>) world0 =
     (([], Some (data0\<lparr>m_Id := Known ''snap-123''\<rparr>)),
      \<lparr>clock = 1, calls = [CallGetSnapshot ''snap-123'']\<rparr>)"
  using Read_not_found_is_success
          [of "[]" env_ok world0 "data0\<lparr>m_Id := Known ''snap-123''\<rparr>" "''404 Not Found''"]
  by (simp add: HasError_def env_ok_def world0_def data0_def did_def)

section \<open>Import\<close>

text \<open>
  Claim C7. In every Import, a not-found answer produces the error diagnostic
  \<open>Snapshot Not Found\<close> and sets no record; any other fetch error produces the error
  diagnostic \<open>Import Error\<close>, whose summary is a different one, and sets no record; a fetched
  snapshot sets a record whose id, name, cpu, gpu, memory, disk, creation time,
  organization, remote image name and size come from the snapshot, whose \<open>keep_remotely\<close> is
  false and whose local image name is the empty string.
\<close>

theorem ImportState_results:
  "(GetSnapshot e (clock w) snapshotID = Failure (Some 404) err \<longrightarrow>
      ImportState e snapshotID w =
        (([Diagnostic SeverityError ''Snapshot Not Found''
             (''Snapshot with ID/name '' @ quoted e snapshotID @ '' not found'')], None),
         did (CallGetSnapshot snapshotID) w)) \<and>
   (GetSnapshot e (clock w) snapshotID = Failure status err \<and> status \<noteq> Some 404 \<longrightarrow>
      ImportState e snapshotID w =
        (([Diagnostic SeverityError ''Import Error''
             (''Unable to fetch snapshot '' @ quoted e snapshotID @ '': '' @ err)], None),
         did (CallGetSnapshot snapshotID) w)) \<and>
   (GetSnapshot e (clock w) snapshotID = Failure (Some 404) err \<and>
    GetSnapshot e' (clock w') snapshotID' = Failure status err' \<and> status \<noteq> Some 404 \<longrightarrow>
      HasError (fst (fst (ImportState e snapshotID w))) \<and>
      HasError (fst (fst (ImportState e' snapshotID' w'))) \<and>
      set (map Summary (fst (fst (ImportState e snapshotID w)))) \<inter>
      set (map Summary (fst (fst (ImportState e' snapshotID' w')))) = {}) \<and>
   (GetSnapshot e (clock w) snapshotID = Success snapshot \<longrightarrow>
      (\<exists>data. ImportState e snapshotID w = (([], Some data), did (CallGetSnapshot snapshotID) w) \<and>
         m_Id data = Known (dto_Id snapshot) \<and>
         m_Name data = Known (dto_Name snapshot) \<and>
         m_Cpu data = Known (int32 e (dto_Cpu snapshot)) \<and>
         m_Gpu data = Known (int32 e (dto_Gpu snapshot)) \<and>
         m_Memory data = Known (int32 e (dto_Mem snapshot)) \<and>
         m_Disk data = Known (int32 e (dto_Disk snapshot)) \<and>
         m_CreatedAt data = Known (Format_RFC3339 (dto_CreatedAt snapshot)) \<and>
         m_OrganizationId data = PointerValue (dto_OrganizationId snapshot) \<and>
         m_RemoteImageName data = PointerValue (dto_ImageName snapshot) \<and>
         m_Size data = PointerValue (Get (dto_Size snapshot)) \<and>
         m_KeepRemotely data = Known False \<and>
         m_ImageName data = Known []))"
  by (simp add: ImportState_def Let_def AddError_Nil HasError_def)

theorem ImportState_results_witness:
  "GetSnapshot env_ok (clock world0) ''snap-123'' = Failure (Some 404) ''404 Not Found'' \<and>
   ImportState env_ok ''snap-123'' world0 =
     (([Diagnostic SeverityError ''Snapshot Not Found''
          ''Snapshot with ID/name \"snap-123\" not found''], None),
      \<lparr>clock = 1, calls = [CallGetSnapshot ''snap-123'']\<rparr>) \<and>
   GetSnapshot env_ok (clock (Sleep world0)) ''snap-123'' = Success snapshot0 \<and>
   fst (ImportState env_ok ''snap-123'' (Sleep world0)) =
     ([], Some \<lparr>m_Id = Known ''snap-123'', m_Name = Known ''test-snap'',
                m_ImageName = Known [],
                m_RemoteImageName = Known ''registry.example/proj/myapp:20250102030405'',
                m_OrganizationId = Known ''org-1'', m_Size = Null,
                m_Cpu = Known 2, m_Gpu = Known 0, m_Memory = Known 4, m_Disk = Known 10,
                m_CreatedAt = Known ''2025-01-02T03:04:05Z'', m_KeepRemotely = Known False\<rparr>)"
proof -
  have g: "GetSnapshot env_ok (clock world0) ''snap-123'' = Failure (Some 404) ''404 Not Found''"
    by (simp add: env_ok_def world0_def)
  have "ImportState env_ok ''snap-123'' world0 =
          (([Diagnostic SeverityError ''Snapshot Not Found''
               (''Snapshot with ID/name '' @ quoted env_ok ''snap-123'' @ '' not found'')], None),
           did (CallGetSnapshot ''snap-123'') world0)"
    using ImportState_results [THEN conjunct1, rule_format, OF g] .
  then have i: "ImportState env_ok ''snap-123'' world0 =
     (([Diagnostic SeverityError ''Snapshot Not Found''
          ''Snapshot with ID/name \"snap-123\" not found''], None),
      \<lparr>clock = 1, calls = [CallGetSnapshot ''snap-123'']\<rparr>)"
    by (simp add: env_ok_def world0_def did_def)
  have s: "GetSnapshot env_ok (clock (Sleep world0)) ''snap-123'' = Success snapshot0"
    by (simp add: env_ok_def world0_def Sleep_def)
  have "fst (ImportState env_ok ''snap-123'' (Sleep world0)) =
     ([], Some \<lparr>m_Id = Known ''snap-123'', m_Name = Known ''test-snap'',
                m_ImageName = Known [],
                m_RemoteImageName = Known ''registry.example/proj/myapp:20250102030405'',
                m_OrganizationId = Known ''org-1'', m_Size = Null,
                m_Cpu = Known 2, m_Gpu = Known 0, m_Memory = Known 4, m_Disk = Known 10,
                m_CreatedAt = Known ''2025-01-02T03:04:05Z'', m_KeepRemotely = Known False\<rparr>)"
    using Format_RFC3339_time0
    by (simp add: ImportState_def s Let_def) (simp add: snapshot0_def env_ok_def)
  with g i s show ?thesis by simp
qed

section \<open>Read: what it leaves alone\<close>

text \<open>
  Claim C10. A readSnapshot that ends without error (the not-found case included) leaves
  id, local image name and \<open>keep_remotely\<close> as they were. On not-found the whole record is
  unchanged; on a fetched snapshot it rewrites name, cpu, gpu, memory, disk and creation
  time, and rewrites organization, remote image name and size only when the snapshot
  carries them.
\<close>

theorem readSnapshot_frame:
  assumes "readSnapshot e data w = (((infos, warns, errors), data'), w')"
    and "\<not> HasError errors"
  shows "m_Id data' = m_Id data \<and> m_ImageName data' = m_ImageName data \<and>
         m_KeepRemotely data' = m_KeepRemotely data \<and>
         (case GetSnapshot e (clock w) (ValueString (m_Id data)) of
            Failure status err \<Rightarrow> data' = data
          | Success snapshot \<Rightarrow>
              m_Name data' = Known (dto_Name snapshot) \<and>
              m_Cpu data' = Known (int32 e (dto_Cpu snapshot)) \<and>
              m_Gpu data' = Known (int32 e (dto_Gpu snapshot)) \<and>
              m_Memory data' = Known (int32 e (dto_Mem snapshot)) \<and>
              m_Disk data' = Known (int32 e (dto_Disk snapshot)) \<and>
              m_CreatedAt data' = Known (Format_RFC3339 (dto_CreatedAt snapshot)) \<and>
              m_OrganizationId data' =
                (case dto_OrganizationId snapshot of
                   Some v \<Rightarrow> Known v | None \<Rightarrow> m_OrganizationId data) \<and>
              m_RemoteImageName data' =
                (case dto_ImageName snapshot of
                   Some v \<Rightarrow> Known v | None \<Rightarrow> m_RemoteImageName data) \<and>
              m_Size data' =
                (if IsSet (dto_Size snapshot) then PointerValue (Get (dto_Size snapshot))
                 else m_Size data))"
  using assms
  by (auto simp: readSnapshot_def Let_def HasError_AddError
           split: response.splits if_splits option.splits)

lemma env_ok_GetSnapshot_later:
  "GetSnapshot env_ok (clock (Sleep world0)) ''snap-123'' = Success snapshot0"
  by (simp add: env_ok_def world0_def Sleep_def)

lemma env_ok_int32_snapshot0:
  "int32 env_ok (dto_Cpu snapshot0) = 2 \<and> int32 env_ok (dto_Mem snapshot0) = 4 \<and>
   int32 env_ok (dto_Disk snapshot0) = 10 \<and> int32 env_ok (dto_Gpu snapshot0) = 0"
  by (simp add: env_ok_def snapshot0_def)

lemma snapshot0_fields:
  "dto_Name snapshot0 = ''test-snap'' \<and> dto_OrganizationId snapshot0 = Some ''org-1'' \<and>
   dto_ImageName snapshot0 = Some ''registry.example/proj/myapp:20250102030405'' \<and>
   dto_Size snapshot0 = Nullable None True \<and> dto_CreatedAt snapshot0 = time0 \<and>
   dto_Id snapshot0 = ''snap-123'' \<and> dto_State snapshot0 = ''active''"
  by (simp add: snapshot0_def)

theorem readSnapshot_frame_witness:
  "readSnapshot env_ok (data0\<lparr>m_Id := Known ''snap-123''\<rparr>) (Sleep world0) =
     ((([], [], []),
       data0\<lparr>m_Id := Known ''snap-123'', m_Gpu := Known 0,
             m_CreatedAt := Known ''2025-01-02T03:04:05Z'',
             m_OrganizationId := Known ''org-1'',
             m_RemoteImageName := Known ''registry.example/proj/myapp:20250102030405'',
             m_Size := Null\<rparr>),
      \<lparr>clock = 2, calls = [CallGetSnapshot ''snap-123'']\<rparr>) \<and>
   \<not> HasError [] \<and>
   m_Id (data0\<lparr>m_Id := Known ''snap-123'', m_Gpu := Known 0,
              m_CreatedAt := Known ''2025-01-02T03:04:05Z'',
              m_OrganizationId := Known ''org-1'',
              m_RemoteImageName := Known ''registry.example/proj/myapp:20250102030405'',
              m_Size := Null\<rparr>) = Known ''snap-123''"
proof -
  have "readSnapshot env_ok (data0\<lparr>m_Id := Known ''snap-123''\<rparr>) (Sleep world0) =
     ((([], [], []),
       data0\<lparr>m_Id := Known ''snap-123'', m_Name := Known ''test-snap'',
             m_Cpu := Known 2, m_Gpu := Known 0, m_Memory := Known 4, m_Disk := Known 10,
             m_CreatedAt := Known ''2025-01-02T03:04:05Z'',
             m_OrganizationId := Known ''org-1'',
             m_RemoteImageName := Known ''registry.example/proj/myapp:20250102030405'',
             m_Size := Null\<rparr>),
      did (CallGetSnapshot ''snap-123'') (Sleep world0))"
    by (simp add: readSnapshot_def Let_def env_ok_GetSnapshot_later env_ok_int32_snapshot0
          snapshot0_fields Format_RFC3339_time0)
  moreover have "did (CallGetSnapshot ''snap-123'') (Sleep world0) =
      \<lparr>clock = 2, calls = [CallGetSnapshot ''snap-123'']\<rparr>"
    by (simp add: did_def Sleep_def world0_def)
  moreover have "data0\<lparr>m_Id := Known ''snap-123'', m_Name := Known ''test-snap'',
             m_Cpu := Known 2, m_Gpu := Known 0, m_Memory := Known 4, m_Disk := Known 10,
             m_CreatedAt := Known ''2025-01-02T03:04:05Z'',
             m_OrganizationId := Known ''org-1'',
             m_RemoteImageName := Known ''registry.example/proj/myapp:20250102030405'',
             m_Size := Null\<rparr> = data0\<lparr>m_Id := Known ''snap-123'', m_Gpu := Known 0,
             m_CreatedAt := Known ''2025-01-02T03:04:05Z'',
             m_OrganizationId := Known ''org-1'',
             m_RemoteImageName := Known ''registry.example/proj/myapp:20250102030405'',
             m_Size := Null\<rparr>"
    by (simp add: data0_def)
  ultimately have r:
    "readSnapshot env_ok (data0\<lparr>m_Id := Known ''snap-123''\<rparr>) (Sleep world0) =
     ((([], [], []),
       data0\<lparr>m_Id := Known ''snap-123'', m_Gpu := Known 0,
             m_CreatedAt := Known ''2025-01-02T03:04:05Z'',
             m_OrganizationId := Known ''org-1'',
             m_RemoteImageName := Known ''registry.example/proj/myapp:20250102030405'',
             m_Size := Null\<rparr>),
      \<lparr>clock = 2, calls = [CallGetSnapshot ''snap-123'']\<rparr>)"
    by (simp only:)
  have h: "\<not> HasError []" by (simp add: HasError_def)
  from readSnapshot_frame [OF r h] have "m_Id (data0\<lparr>m_Id := Known ''snap-123'', m_Gpu := Known 0,
              m_CreatedAt := Known ''2025-01-02T03:04:05Z'',
              m_OrganizationId := Known ''org-1'',
              m_RemoteImageName := Known ''registry.example/proj/myapp:20250102030405'',
              m_Size := Null\<rparr>) = m_Id (data0\<lparr>m_Id := Known ''snap-123''\<rparr>)"
    by (rule conjunct1)
  then have "m_Id (data0\<lparr>m_Id := Known ''snap-123'', m_Gpu := Known 0,
              m_CreatedAt := Known ''2025-01-02T03:04:05Z'',
              m_OrganizationId := Known ''org-1'',
              m_RemoteImageName := Known ''registry.example/proj/myapp:20250102030405'',
              m_Size := Null\<rparr>) = Known ''snap-123''"
    by simp
  with r h show ?thesis by (simp only: simp_thms)
qed

section \<open>The polling loops, one round at a time\<close>

text \<open>
  Each loop looks at the context first. When the context is done it leaves; otherwise it
  makes its call, and either leaves with the answer or sleeps and goes round again.
\<close>

lemma maybeCleanup_loop_cancelled:
  "ctxDone e (clock w) \<Longrightarrow>
   maybeCleanupExistingCreationAttempt_loop e existingId warns errors w = Some ((warns, errors), w)"
  by (simp add: maybeCleanupExistingCreationAttempt_loop.simps [of e existingId warns errors w])

lemma maybeCleanup_loop_again:
  "\<not> ctxDone e (clock w) \<Longrightarrow> GetSnapshot e (clock w) existingId = Success s \<Longrightarrow>
   maybeCleanupExistingCreationAttempt_loop e existingId warns errors w =
   maybeCleanupExistingCreationAttempt_loop e existingId warns errors
     (Sleep (did (CallGetSnapshot existingId) w))"
  by (simp add: maybeCleanupExistingCreationAttempt_loop.simps [of e existingId warns errors w])

lemma deleteSnapshot_loop_cancelled:
  "ctxDone e (clock w) \<Longrightarrow>
   deleteSnapshot_loop e snapshotId w =
     Some (([], [], [Diagnostic SeverityError ''Deletion Error''
                       (''Cancelled while waiting for snapshot deletion: '' @ ctxErr e)]), w)"
  by (simp add: deleteSnapshot_loop.simps [of e snapshotId w] AddError_Nil)

lemma deleteSnapshot_loop_again:
  "\<not> ctxDone e (clock w) \<Longrightarrow> GetSnapshot e (clock w) snapshotId = Success s \<Longrightarrow>
   deleteSnapshot_loop e snapshotId w =
   deleteSnapshot_loop e snapshotId (Sleep (did (CallGetSnapshot snapshotId) w))"
  by (simp add: deleteSnapshot_loop.simps [of e snapshotId w])

lemma pushImageToRegistry_loop_cancelled:
  "ctxDone e (clock w) \<Longrightarrow>
   pushImageToRegistry_loop e targetImage registryAuth w =
     Some ((targetImage, [],
            [Diagnostic SeverityError ''Image Availability Error''
               (''Cancelled during waiting for image to become available: '' @ ctxErr e)]), w)"
  by (simp add: pushImageToRegistry_loop.simps [of e targetImage registryAuth w] AddError_Nil)

lemma pushImageToRegistry_loop_again:
  "\<not> ctxDone e (clock w) \<Longrightarrow>
   DistributionInspect e (clock w) targetImage registryAuth = Some err \<Longrightarrow>
   pushImageToRegistry_loop e targetImage registryAuth w =
   pushImageToRegistry_loop e targetImage registryAuth
     (Sleep (did (CallDistributionInspect targetImage registryAuth) w))"
  by (simp add: pushImageToRegistry_loop.simps [of e targetImage registryAuth w])

lemma pushImageToRegistry_loop_ready:
  "\<not> ctxDone e (clock w) \<Longrightarrow>
   DistributionInspect e (clock w) targetImage registryAuth = None \<Longrightarrow>
   pushImageToRegistry_loop e targetImage registryAuth w =
     Some ((targetImage, [], []), did (CallDistributionInspect targetImage registryAuth) w)"
  by (simp add: pushImageToRegistry_loop.simps [of e targetImage registryAuth w])

lemma ensureSnapshotAvailable_cancelled:
  "ctxDone e (clock w) \<Longrightarrow>
   ensureSnapshotAvailable e snapshotName w =
     Some (Returned (None, [],
             [Diagnostic SeverityError ''Snapshot Availability Error''
                (''Cancelled during waiting for snapshot to become available: '' @ ctxErr e)]),
           w)"
  by (simp add: ensureSnapshotAvailable.simps [of e snapshotName w] AddError_Nil)

lemma ensureSnapshotAvailable_active:
  "\<not> ctxDone e (clock w) \<Longrightarrow> GetSnapshot e (clock w) snapshotName = Success snapshot \<Longrightarrow>
   dto_State snapshot = ''active'' \<Longrightarrow>
   ensureSnapshotAvailable e snapshotName w =
     Some (Returned (Some snapshot, [], []), did (CallGetSnapshot snapshotName) w)"
  by (simp add: ensureSnapshotAvailable.simps [of e snapshotName w] SNAPSHOTSTATE_ACTIVE_def)

lemma ensureSnapshotAvailable_failed_unset:
  "\<not> ctxDone e (clock w) \<Longrightarrow> GetSnapshot e (clock w) snapshotName = Success snapshot \<Longrightarrow>
   dto_State snapshot = ''error'' \<or> dto_State snapshot = ''build_failed'' \<Longrightarrow>
   \<not> IsSet (dto_ErrorReason snapshot) \<Longrightarrow>
   ensureSnapshotAvailable e snapshotName w =
     Some (Returned (Some snapshot, [],
             [Diagnostic SeverityError ''Snapshot Availability Error''
                ''Snapshot processing failed with unknown reason'']),
           did (CallGetSnapshot snapshotName) w)"
  by (auto simp: ensureSnapshotAvailable.simps [of e snapshotName w] SNAPSHOTSTATE_ACTIVE_def
        SNAPSHOTSTATE_ERROR_def SNAPSHOTSTATE_BUILD_FAILED_def AddError_Nil)

lemma ensureSnapshotAvailable_failed_reason:
  "\<not> ctxDone e (clock w) \<Longrightarrow> GetSnapshot e (clock w) snapshotName = Success snapshot \<Longrightarrow>
   dto_State snapshot = ''error'' \<or> dto_State snapshot = ''build_failed'' \<Longrightarrow>
   IsSet (dto_ErrorReason snapshot) \<Longrightarrow> Get (dto_ErrorReason snapshot) = Some reason \<Longrightarrow>
   ensureSnapshotAvailable e snapshotName w =
     Some (Returned (Some snapshot, [],
             [Diagnostic SeverityError ''Snapshot Availability Error''
                (''Snapshot processing failed: '' @ reason)]),
           did (CallGetSnapshot snapshotName) w)"
  by (auto simp: ensureSnapshotAvailable.simps [of e snapshotName w] SNAPSHOTSTATE_ACTIVE_def
        SNAPSHOTSTATE_ERROR_def SNAPSHOTSTATE_BUILD_FAILED_def AddError_Nil)

lemma ensureSnapshotAvailable_failed_null:
  "\<not> ctxDone e (clock w) \<Longrightarrow> GetSnapshot e (clock w) snapshotName = Success snapshot \<Longrightarrow>
   dto_State snapshot = ''error'' \<or> dto_State snapshot = ''build_failed'' \<Longrightarrow>
   IsSet (dto_ErrorReason snapshot) \<Longrightarrow> Get (dto_ErrorReason snapshot) = None \<Longrightarrow>
   ensureSnapshotAvailable e snapshotName w =
     Some (Panicked ''invalid memory address or nil pointer dereference'',
           did (CallGetSnapshot snapshotName) w)"
  by (auto simp: ensureSnapshotAvailable.simps [of e snapshotName w] SNAPSHOTSTATE_ACTIVE_def
        SNAPSHOTSTATE_ERROR_def SNAPSHOTSTATE_BUILD_FAILED_def AddError_Nil)

lemma ensureSnapshotAvailable_again:
  "\<not> ctxDone e (clock w) \<Longrightarrow> GetSnapshot e (clock w) snapshotName = Success snapshot \<Longrightarrow>
   dto_State snapshot \<noteq> ''active'' \<Longrightarrow> dto_State snapshot \<noteq> ''error'' \<Longrightarrow>
   dto_State snapshot \<noteq> ''build_failed'' \<Longrightarrow>
   ensureSnapshotAvailable e snapshotName w =
   ensureSnapshotAvailable e snapshotName (Sleep (did (CallGetSnapshot snapshotName) w))"
  by (simp add: ensureSnapshotAvailable.simps [of e snapshotName w] SNAPSHOTSTATE_ACTIVE_def
        SNAPSHOTSTATE_ERROR_def SNAPSHOTSTATE_BUILD_FAILED_def)

section \<open>Availability polling: a fetch that fails\<close>

text \<open>
  Claim C9. While polling for availability, every error of the fetch (not-found included)
  at once gives an error diagnostic and ends the polling after that one call. Not-found is
  no error in the other places: readSnapshot, the loop that confirms a deletion, the loop
  that confirms the removal of a stale snapshot, and the first look for a stale snapshot.
\<close>

theorem ensureSnapshotAvailable_fetch_error_stops:
  "(\<not> ctxDone e (clock w) \<and> GetSnapshot e (clock w) snapshotName = Failure status err \<longrightarrow>
      ensureSnapshotAvailable e snapshotName w =
        Some (Returned (None, [],
                [Diagnostic SeverityError ''Snapshot Availability Error''
                   (''Unable to fetch snapshot: '' @ err)]),
              did (CallGetSnapshot snapshotName) w)) \<and>
   (GetSnapshot e (clock w) (ValueString (m_Id data)) = Failure (Some 404) err \<longrightarrow>
      \<not> HasError (snd (snd (fst (fst (readSnapshot e data w)))))) \<and>
   (\<not> ctxDone e (clock w) \<and> GetSnapshot e (clock w) snapshotName = Failure (Some 404) err \<longrightarrow>
      deleteSnapshot_loop e snapshotName w =
        Some (([], [], []), did (CallGetSnapshot snapshotName) w) \<and>
      maybeCleanupExistingCreationAttempt_loop e snapshotName warns [] w =
        Some ((warns, []), did (CallGetSnapshot snapshotName) w)) \<and>
   (GetSnapshot e (clock w) snapshotName = Failure (Some 404) err \<longrightarrow>
      maybeCleanupExistingCreationAttempt e snapshotName w =
        Some (([], []), did (CallGetSnapshot snapshotName) w))"
  by (simp add: ensureSnapshotAvailable.simps [of e snapshotName w]
        deleteSnapshot_loop.simps [of e snapshotName w]
        maybeCleanupExistingCreationAttempt_loop.simps [of e snapshotName warns "[]" w]
        maybeCleanupExistingCreationAttempt_def readSnapshot_def Let_def AddError_Nil
        HasError_Nil)

theorem ensureSnapshotAvailable_fetch_error_stops_witness:
  "\<not> ctxDone env_ok (clock world0) \<and>
   GetSnapshot env_ok (clock world0) ''test-snap'' = Failure (Some 404) ''404 Not Found'' \<and>
   ensureSnapshotAvailable env_ok ''test-snap'' world0 =
     Some (Returned (None, [],
             [Diagnostic SeverityError ''Snapshot Availability Error''
                ''Unable to fetch snapshot: 404 Not Found'']),
           \<lparr>clock = 1, calls = [CallGetSnapshot ''test-snap'']\<rparr>)"
proof -
  have c: "\<not> ctxDone env_ok (clock world0)" by (simp add: env_ok_def)
  have g: "GetSnapshot env_ok (clock world0) ''test-snap'' = Failure (Some 404) ''404 Not Found''"
    by (simp add: env_ok_def world0_def)
  have "ensureSnapshotAvailable env_ok ''test-snap'' world0 =
        Some (Returned (None, [],
                [Diagnostic SeverityError ''Snapshot Availability Error''
                   (''Unable to fetch snapshot: '' @ ''404 Not Found'')]),
              did (CallGetSnapshot ''test-snap'') world0)"
    using ensureSnapshotAvailable_fetch_error_stops [THEN conjunct1, rule_format, OF conjI, OF c g] .
  then show ?thesis using c g by (simp add: did_def world0_def)
qed

section \<open>The example environments, evaluated\<close>

lemma did_world: "did c \<lparr>clock = n, calls = cs\<rparr> = \<lparr>clock = n + 1, calls = cs @ [c]\<rparr>"
  by (simp add: did_def)

lemma Sleep_world: "Sleep \<lparr>clock = n, calls = cs\<rparr> = \<lparr>clock = n + 1, calls = cs\<rparr>"
  by (simp add: Sleep_def)

lemma env_cancelled_answers:
  "ctxDone env_cancelled t = (3 < t)"
  "ctxErr env_cancelled = ''context canceled''"
  "GetSnapshot env_cancelled t n = Success (snapshot0\<lparr>dto_State := ''building''\<rparr>)"
  "RemoveSnapshot env_cancelled t n = Success ()"
  "DistributionInspect env_cancelled t n a = Some ''manifest unknown''"
  by (simp_all add: env_cancelled_def env_ok_def)

lemma building_fields:
  "dto_Id (snapshot0\<lparr>dto_State := ''building''\<rparr>) = ''snap-123''"
  "dto_State (snapshot0\<lparr>dto_State := ''building''\<rparr>) = ''building''"
  by (simp_all add: snapshot0_def)

lemma cleanup_loop_env_cancelled:
  "maybeCleanupExistingCreationAttempt_loop env_cancelled ''snap-123'' [] []
     \<lparr>clock = 2, calls = cs\<rparr> =
   Some (([], []), \<lparr>clock = 4, calls = cs @ [CallGetSnapshot ''snap-123'']\<rparr>)"
proof -
  have "maybeCleanupExistingCreationAttempt_loop env_cancelled ''snap-123'' [] []
          \<lparr>clock = 2, calls = cs\<rparr> =
        maybeCleanupExistingCreationAttempt_loop env_cancelled ''snap-123'' [] []
          (Sleep (did (CallGetSnapshot ''snap-123'') \<lparr>clock = 2, calls = cs\<rparr>))"
    by (rule maybeCleanup_loop_again [where s = "snapshot0\<lparr>dto_State := ''building''\<rparr>"])
       (simp_all add: env_cancelled_answers)
  also have "\<dots> = Some (([], []), Sleep (did (CallGetSnapshot ''snap-123'') \<lparr>clock = 2, calls = cs\<rparr>))"
    by (rule maybeCleanup_loop_cancelled) (simp add: env_cancelled_answers did_world Sleep_world)
  finally show ?thesis by (simp add: did_world Sleep_world)
qed

lemma cleanup_env_cancelled:
  "maybeCleanupExistingCreationAttempt env_cancelled ''test-snap'' world0 =
   Some (([], []),
         \<lparr>clock = 4, calls = [CallGetSnapshot ''test-snap'', CallRemoveSnapshot ''snap-123'',
                               CallGetSnapshot ''snap-123'']\<rparr>)"
  by (simp add: maybeCleanupExistingCreationAttempt_def Let_def world0_def env_cancelled_answers
        building_fields did_world cleanup_loop_env_cancelled
        numeral_2_eq_2 [symmetric])

lemma delete_loop_env_cancelled:
  "deleteSnapshot_loop env_cancelled ''snap-123'' \<lparr>clock = 2, calls = cs\<rparr> =
   Some (([], [], [Diagnostic SeverityError ''Deletion Error''
                     ''Cancelled while waiting for snapshot deletion: context canceled'']),
         \<lparr>clock = 4, calls = cs @ [CallGetSnapshot ''snap-123'']\<rparr>)"
proof -
  have "deleteSnapshot_loop env_cancelled ''snap-123'' \<lparr>clock = 2, calls = cs\<rparr> =
        deleteSnapshot_loop env_cancelled ''snap-123''
          (Sleep (did (CallGetSnapshot ''snap-123'') \<lparr>clock = 2, calls = cs\<rparr>))"
    by (rule deleteSnapshot_loop_again [where s = "snapshot0\<lparr>dto_State := ''building''\<rparr>"])
       (simp_all add: env_cancelled_answers)
  also have "\<dots> = Some (([], [], [Diagnostic SeverityError ''Deletion Error''
                       (''Cancelled while waiting for snapshot deletion: '' @
                        ctxErr env_cancelled)]),
                     Sleep (did (CallGetSnapshot ''snap-123'') \<lparr>clock = 2, calls = cs\<rparr>))"
    by (rule deleteSnapshot_loop_cancelled) (simp add: env_cancelled_answers did_world Sleep_world)
  finally show ?thesis by (simp add: did_world Sleep_world env_cancelled_answers)
qed

lemma ensure_env_cancelled:
  "ensureSnapshotAvailable env_cancelled ''test-snap'' \<lparr>clock = 2, calls = cs\<rparr> =
   Some (Returned (None, [],
           [Diagnostic SeverityError ''Snapshot Availability Error''
              ''Cancelled during waiting for snapshot to become available: context canceled'']),
         \<lparr>clock = 4, calls = cs @ [CallGetSnapshot ''test-snap'']\<rparr>)"
proof -
  have "ensureSnapshotAvailable env_cancelled ''test-snap'' \<lparr>clock = 2, calls = cs\<rparr> =
        ensureSnapshotAvailable env_cancelled ''test-snap''
          (Sleep (did (CallGetSnapshot ''test-snap'') \<lparr>clock = 2, calls = cs\<rparr>))"
    by (rule ensureSnapshotAvailable_again
          [where snapshot = "snapshot0\<lparr>dto_State := ''building''\<rparr>"])
       (simp_all add: env_cancelled_answers building_fields)
  also have "\<dots> = Some (Returned (None, [],
             [Diagnostic SeverityError ''Snapshot Availability Error''
                (''Cancelled during waiting for snapshot to become available: '' @
                 ctxErr env_cancelled)]),
           Sleep (did (CallGetSnapshot ''test-snap'') \<lparr>clock = 2, calls = cs\<rparr>))"
    by (rule ensureSnapshotAvailable_cancelled)
       (simp add: env_cancelled_answers did_world Sleep_world)
  finally show ?thesis by (simp add: did_world Sleep_world env_cancelled_answers)
qed

lemma push_loop_env_cancelled:
  "pushImageToRegistry_loop env_cancelled ''img'' ''auth'' \<lparr>clock = 2, calls = cs\<rparr> =
   Some ((''img'', [],
          [Diagnostic SeverityError ''Image Availability Error''
             ''Cancelled during waiting for image to become available: context canceled'']),
         \<lparr>clock = 4, calls = cs @ [CallDistributionInspect ''img'' ''auth'']\<rparr>)"
proof -
  have "pushImageToRegistry_loop env_cancelled ''img'' ''auth'' \<lparr>clock = 2, calls = cs\<rparr> =
        pushImageToRegistry_loop env_cancelled ''img'' ''auth''
          (Sleep (did (CallDistributionInspect ''img'' ''auth'') \<lparr>clock = 2, calls = cs\<rparr>))"
    by (rule pushImageToRegistry_loop_again [where err = "''manifest unknown''"])
       (simp_all add: env_cancelled_answers)
  also have "\<dots> = Some ((''img'', [],
            [Diagnostic SeverityError ''Image Availability Error''
               (''Cancelled during waiting for image to become available: '' @
                ctxErr env_cancelled)]),
           Sleep (did (CallDistributionInspect ''img'' ''auth'') \<lparr>clock = 2, calls = cs\<rparr>))"
    by (rule pushImageToRegistry_loop_cancelled)
       (simp add: env_cancelled_answers did_world Sleep_world)
  finally show ?thesis by (simp add: did_world Sleep_world env_cancelled_answers)
qed

lemma targetImageName_example:
  "targetImageName access0 ''myapp:latest'' time0 = ''registry.example/proj/myapp:20250102030405''"
  by code_simp

lemma access0_fields:
  "Username access0 = ''robot''" "Secret access0 = ''secret''"
  "RegistryUrl access0 = ''registry.example''" "Project access0 = ''proj''"
  by (simp_all add: access0_def)

lemma env_untag_fails_answers:
  "ctxDone env_untag_fails t = False"
  "GetSnapshot env_untag_fails t n =
     (if t = 0 then Failure (Some 404) ''404 Not Found'' else Success snapshot0)"
  "CreateSnapshotExecute env_untag_fails t r = Success ()"
  "GetTransientPushAccess env_untag_fails t = Success access0"
  "NewClientWithOpts env_untag_fails t = None"
  "ImageInspectWithRaw env_untag_fails t n = None"
  "ImageTag env_untag_fails t n m = None"
  "ImagePush env_untag_fails t n a = None"
  "CopyPushOutput env_untag_fails t = None"
  "DistributionInspect env_untag_fails t n a = None"
  "ImageRemove env_untag_fails t n = Some ''No such image''"
  "timeNow env_untag_fails t = time0"
  "jsonMarshal env_untag_fails c =
     Inr (auth_Username c @ '':'' @ auth_Password c @ ''@'' @ auth_ServerAddress c)"
  "base64URLEncode env_untag_fails s = s"
  "int32 env_untag_fails = int32 env_ok"
  by (simp_all add: env_untag_fails_def env_ok_def)

lemma push_untag_fails:
  "pushImageToRegistry env_untag_fails ''myapp:latest'' \<lparr>clock = 2, calls = cs\<rparr> =
   Some ((''registry.example/proj/myapp:20250102030405'', [], []),
         \<lparr>clock = 8,
          calls = cs @
            [CallGetTransientPushAccess, CallImageInspectWithRaw ''myapp:latest'',
             CallImageTag ''myapp:latest'' ''registry.example/proj/myapp:20250102030405'',
             CallImagePush ''registry.example/proj/myapp:20250102030405''
               ''robot:secret@registry.example'',
             CallCopyPushOutput,
             CallDistributionInspect ''registry.example/proj/myapp:20250102030405''
               ''robot:secret@registry.example'']\<rparr>)"
  by (simp add: pushImageToRegistry_def Let_def env_untag_fails_answers did_world
        targetImageName_example pushImageToRegistry_loop_ready access0_fields)

lemma data0_fields:
  "ValueString (m_Name data0) = ''test-snap''" "ValueString (m_ImageName data0) = ''myapp:latest''"
  "m_Cpu data0 = Known 2" "m_Memory data0 = Known 4" "m_Disk data0 = Known 10"
  by (simp_all add: data0_def)

lemma cleanup_untag_fails:
  "maybeCleanupExistingCreationAttempt env_untag_fails ''test-snap'' world0 =
   Some (([], []), \<lparr>clock = 1, calls = [CallGetSnapshot ''test-snap'']\<rparr>)"
  by (simp add: maybeCleanupExistingCreationAttempt_def Let_def env_untag_fails_answers
        world0_def did_world)

lemma register_untag_fails:
  "registerSnapshot env_untag_fails data0 target \<lparr>clock = 8, calls = cs\<rparr> =
   (([], []),
    \<lparr>clock = 9,
     calls = cs @ [CallCreateSnapshot \<lparr>cs_Name = ''test-snap'', cs_ImageName = Some target,
                                       cs_Cpu = Some 2, cs_Memory = Some 4,
                                       cs_Disk = Some 10\<rparr>]\<rparr>)"
  by (simp add: registerSnapshot_def Let_def env_untag_fails_answers data0_fields did_world)

lemma ensure_untag_fails:
  "ensureSnapshotAvailable env_untag_fails ''test-snap'' \<lparr>clock = 9, calls = cs\<rparr> =
   Some (Returned (Some snapshot0, [], []),
         \<lparr>clock = 10, calls = cs @ [CallGetSnapshot ''test-snap'']\<rparr>)"
proof -
  have "ensureSnapshotAvailable env_untag_fails ''test-snap'' \<lparr>clock = 9, calls = cs\<rparr> =
        Some (Returned (Some snapshot0, [], []),
              did (CallGetSnapshot ''test-snap'') \<lparr>clock = 9, calls = cs\<rparr>)"
    by (rule ensureSnapshotAvailable_active)
       (simp_all add: env_untag_fails_answers snapshot0_fields)
  then show ?thesis by (simp add: did_world)
qed

lemma body_untag_fails:
  "createSnapshot_body env_untag_fails data0 target [] [] \<lparr>clock = 8, calls = cs\<rparr> =
   Some ((Returned (([], [], []), createSnapshot_populate env_untag_fails data0 snapshot0), []),
         \<lparr>clock = 10,
          calls = cs @ [CallCreateSnapshot \<lparr>cs_Name = ''test-snap'', cs_ImageName = Some target,
                                            cs_Cpu = Some 2, cs_Memory = Some 4,
                                            cs_Disk = Some 10\<rparr>,
                        CallGetSnapshot ''test-snap'']\<rparr>)"
  by (simp add: createSnapshot_body_def Let_def register_untag_fails ensure_untag_fails
        data0_fields HasError_Nil)

lemma deferred_untag_fails:
  "createSnapshot_deferred env_untag_fails ''registry.example/proj/myapp:20250102030405'' []
     \<lparr>clock = 10, calls = cs\<rparr> =
   ([Diagnostic SeverityWarning ''Cleanup Warning''
       ''Failed to remove tagged image registry.example/proj/myapp:20250102030405: No such image''],
    \<lparr>clock = 11,
     calls = cs @ [CallImageRemove ''registry.example/proj/myapp:20250102030405'']\<rparr>)"
  by (simp add: createSnapshot_deferred_def env_untag_fails_answers did_world AddWarning_def)

lemma createSnapshot_untag_fails:
  "createSnapshot env_untag_fails data0 world0 =
   Some (Returned (([], [], []), createSnapshot_populate env_untag_fails data0 snapshot0),
         \<lparr>clock = 11,
          calls =
            [CallGetSnapshot ''test-snap'', CallNewClientWithOpts,
             CallGetTransientPushAccess, CallImageInspectWithRaw ''myapp:latest'',
             CallImageTag ''myapp:latest'' ''registry.example/proj/myapp:20250102030405'',
             CallImagePush ''registry.example/proj/myapp:20250102030405''
               ''robot:secret@registry.example'',
             CallCopyPushOutput,
             CallDistributionInspect ''registry.example/proj/myapp:20250102030405''
               ''robot:secret@registry.example'',
             CallCreateSnapshot
               \<lparr>cs_Name = ''test-snap'',
                cs_ImageName = Some ''registry.example/proj/myapp:20250102030405'',
                cs_Cpu = Some 2, cs_Memory = Some 4, cs_Disk = Some 10\<rparr>,
             CallGetSnapshot ''test-snap'',
             CallImageRemove ''registry.example/proj/myapp:20250102030405'']\<rparr>)"
  by (simp add: createSnapshot_def Let_def cleanup_untag_fails env_untag_fails_answers
        did_world data0_fields push_untag_fails body_untag_fails deferred_untag_fails
        HasError_Nil numeral_2_eq_2 [symmetric])

lemma env_failed_null_answers:
  "ctxDone env_failed_null t = False"
  "GetSnapshot env_failed_null t n =
     Success (snapshot0\<lparr>dto_State := ''error'', dto_ErrorReason := Nullable None True\<rparr>)"
  by (simp_all add: env_failed_null_def env_ok_def)

lemma ensure_env_failed_null:
  "ensureSnapshotAvailable env_failed_null ''test-snap'' world0 =
   Some (Panicked ''invalid memory address or nil pointer dereference'',
         \<lparr>clock = 1, calls = [CallGetSnapshot ''test-snap'']\<rparr>)"
proof -
  have "ensureSnapshotAvailable env_failed_null ''test-snap'' world0 =
        Some (Panicked ''invalid memory address or nil pointer dereference'',
              did (CallGetSnapshot ''test-snap'') world0)"
    by (rule ensureSnapshotAvailable_failed_null
          [where snapshot = "snapshot0\<lparr>dto_State := ''error'',
                                         dto_ErrorReason := Nullable None True\<rparr>"])
       (simp_all add: env_failed_null_answers)
  then show ?thesis by (simp add: did_world world0_def)
qed

section \<open>Cancellation in the polling loops\<close>

text \<open>
  Claim C2 says that a cancellation during any polling loop gives an error diagnostic that
  names the cancellation. In \<open>env_cancelled\<close> the context is not done at clocks 2 and 3 and
  is done at clock 4, so the cancellation arrives during the first round of a loop entered
  at clock 2. The loops that wait for the deletion, for the snapshot and for the manifest
  each return their cancellation error. The loop that waits for the stale snapshot to go
  returns with no diagnostic at all: maybeCleanupExistingCreationAttempt ends with neither
  a warning nor an error.
\<close>

theorem stale_cleanup_cancelled_without_diagnostic:
  "\<not> ctxDone env_cancelled 2 \<and> \<not> ctxDone env_cancelled 3 \<and> ctxDone env_cancelled 4 \<and>
   maybeCleanupExistingCreationAttempt env_cancelled ''test-snap'' world0 =
     Some (([], []),
           \<lparr>clock = 4, calls = [CallGetSnapshot ''test-snap'', CallRemoveSnapshot ''snap-123'',
                                 CallGetSnapshot ''snap-123'']\<rparr>) \<and>
   deleteSnapshot_loop env_cancelled ''snap-123'' \<lparr>clock = 2, calls = []\<rparr> =
     Some (([], [], [Diagnostic SeverityError ''Deletion Error''
                       ''Cancelled while waiting for snapshot deletion: context canceled'']),
           \<lparr>clock = 4, calls = [CallGetSnapshot ''snap-123'']\<rparr>) \<and>
   ensureSnapshotAvailable env_cancelled ''test-snap'' \<lparr>clock = 2, calls = []\<rparr> =
     Some (Returned (None, [],
             [Diagnostic SeverityError ''Snapshot Availability Error''
                ''Cancelled during waiting for snapshot to become available: context canceled'']),
           \<lparr>clock = 4, calls = [CallGetSnapshot ''test-snap'']\<rparr>) \<and>
   pushImageToRegistry_loop env_cancelled ''img'' ''auth'' \<lparr>clock = 2, calls = []\<rparr> =
     Some ((''img'', [],
            [Diagnostic SeverityError ''Image Availability Error''
               ''Cancelled during waiting for image to become available: context canceled'']),
           \<lparr>clock = 4, calls = [CallDistributionInspect ''img'' ''auth'']\<rparr>)"
  using cleanup_env_cancelled delete_loop_env_cancelled [of "[]"] ensure_env_cancelled [of "[]"]
    push_loop_env_cancelled [of "[]"]
  by (simp add: env_cancelled_answers)

section \<open>Create: the warning of the deferred untagging\<close>

text \<open>
  Claim C3 says that after a successful push the local tag is removed whatever follows,
  and that a failed removal leaves a warning in the diagnostics returned to the caller. In
  \<open>env_untag_fails\<close> every phase succeeds and the removal of the tag fails. The removal is
  the last call made, and the deferred function adds its warning to the local variable
  \<open>warnings\<close>; the diagnostics that createSnapshot and Create return are empty.
\<close>

theorem createSnapshot_untag_warning_not_returned:
  "ImageRemove env_untag_fails 10 ''registry.example/proj/myapp:20250102030405'' =
     Some ''No such image'' \<and>
   createSnapshot_deferred env_untag_fails ''registry.example/proj/myapp:20250102030405'' []
     \<lparr>clock = 10, calls = []\<rparr> =
     ([Diagnostic SeverityWarning ''Cleanup Warning''
         ''Failed to remove tagged image registry.example/proj/myapp:20250102030405: No such image''],
      \<lparr>clock = 11, calls = [CallImageRemove ''registry.example/proj/myapp:20250102030405'']\<rparr>) \<and>
   createSnapshot env_untag_fails data0 world0 =
     Some (Returned (([], [], []), createSnapshot_populate env_untag_fails data0 snapshot0),
           \<lparr>clock = 11,
            calls =
              [CallGetSnapshot ''test-snap'', CallNewClientWithOpts,
               CallGetTransientPushAccess, CallImageInspectWithRaw ''myapp:latest'',
               CallImageTag ''myapp:latest'' ''registry.example/proj/myapp:20250102030405'',
               CallImagePush ''registry.example/proj/myapp:20250102030405''
                 ''robot:secret@registry.example'',
               CallCopyPushOutput,
               CallDistributionInspect ''registry.example/proj/myapp:20250102030405''
                 ''robot:secret@registry.example'',
               CallCreateSnapshot
                 \<lparr>cs_Name = ''test-snap'',
                  cs_ImageName = Some ''registry.example/proj/myapp:20250102030405'',
                  cs_Cpu = Some 2, cs_Memory = Some 4, cs_Disk = Some 10\<rparr>,
               CallGetSnapshot ''test-snap'',
               CallImageRemove ''registry.example/proj/myapp:20250102030405'']\<rparr>) \<and>
   (case Create env_untag_fails ([], data0) world0 of
      Some (Returned (diags, state), w) \<Rightarrow> diags = [] \<and> state \<noteq> None
    | _ \<Rightarrow> False)"
  using deferred_untag_fails [of "[]"]
  by (simp add: Create_def createSnapshot_untag_fails HasError_Nil env_untag_fails_answers)

section \<open>Availability polling: a failed snapshot whose reason is null\<close>

text \<open>
  Claim C5 says that a snapshot in state error or build_failed ends the polling with an
  error diagnostic that carries the platform's reason if one is set, and a generic message
  otherwise. In \<open>env_failed_null\<close> the platform answers a snapshot in state error whose
  reason is set to null: \<open>IsSet\<close> holds and the pointer is nil. ensureSnapshotAvailable
  then dereferences the nil pointer and panics; it returns no diagnostic.
\<close>

theorem ensureSnapshotAvailable_null_reason_panics:
  "IsSet (dto_ErrorReason (snapshot0\<lparr>dto_State := ''error'',
                                       dto_ErrorReason := Nullable None True\<rparr>)) \<and>
   Get (dto_ErrorReason (snapshot0\<lparr>dto_State := ''error'',
                                     dto_ErrorReason := Nullable None True\<rparr>)) = None \<and>
   ensureSnapshotAvailable env_failed_null ''test-snap'' world0 =
     Some (Panicked ''invalid memory address or nil pointer dereference'',
           \<lparr>clock = 1, calls = [CallGetSnapshot ''test-snap'']\<rparr>)"
  using ensure_env_failed_null by simp

section \<open>The target reference of a push\<close>



















end
